theory Spec2Isabelle
  imports Complex_Main "HOL-Library.Word"
begin

section \<open>JavaScript values used by lib/datastore/entity.js\<close>

text \<open>
  A JavaScript number is modelled by its exact mathematical value (a rational), or one
  of the three non-finite values. Rounding to 64-bit floating point and the sign of zero
  are not modelled: every function of the module that is embedded below only tests a
  number for truthiness, for \<^verbatim>\<open>v % 1 === 0\<close>, for \<^verbatim>\<open>> 0\<close>, prints and re-parses it, or
  multiplies and divides it by 1000.
\<close>

datatype jsnum = Fin rat | NaN | PosInf | NegInf

text \<open>
  The primitive values that can sit in a key path (\<^verbatim>\<open>options.path\<close> is declared
  \<^verbatim>\<open>{...*}\<close>); \<^verbatim>\<open>Undefined\<close> is also what \<^verbatim>\<open>Array.prototype.pop\<close> returns on an
  empty array and what an index beyond the end of an array reads.
\<close>

datatype jsprim = Undefined | Null | Bool bool | Num jsnum | Str string

text \<open>ToBoolean on a number: \<^verbatim>\<open>0\<close> and \<^verbatim>\<open>NaN\<close> are falsy.\<close>

fun truthy_num :: "jsnum \<Rightarrow> bool" where
  "truthy_num (Fin q) = (q \<noteq> 0)"
| "truthy_num NaN = False"
| "truthy_num PosInf = True"
| "truthy_num NegInf = True"

text \<open>ToBoolean on a primitive: the empty string is falsy as well.\<close>

fun truthy :: "jsprim \<Rightarrow> bool" where
  "truthy Undefined = False"
| "truthy Null = False"
| "truthy (Bool b) = b"
| "truthy (Num n) = truthy_num n"
| "truthy (Str s) = (s \<noteq> [])"

text \<open>
  \<^verbatim>\<open>is.number\<close> and \<^verbatim>\<open>is.string\<close> of the \<^verbatim>\<open>is\<close> package compare
  \<^verbatim>\<open>Object.prototype.toString.call(value)\<close> with \<^verbatim>\<open>[object Number]\<close> and
  \<^verbatim>\<open>[object String]\<close>: every number (also \<^verbatim>\<open>NaN\<close>) is a number, every string (also
  the empty one) is a string.
\<close>

fun is_number :: "jsprim \<Rightarrow> bool" where
  "is_number (Num n) = True"
| "is_number v = False"

fun is_string :: "jsprim \<Rightarrow> bool" where
  "is_string (Str s) = True"
| "is_string v = False"

text \<open>\<^verbatim>\<open>a || b\<close>.\<close>

definition js_or :: "jsprim \<Rightarrow> jsprim \<Rightarrow> jsprim" where
  "js_or a b = (if truthy a then a else b)"

text \<open>\<^verbatim>\<open>Array.prototype.pop\<close>: the removed last element and the array left behind.\<close>

definition pop :: "jsprim list \<Rightarrow> jsprim \<times> jsprim list" where
  "pop xs = (if xs = [] then (Undefined, []) else (last xs, butlast xs))"

section \<open>Errors\<close>

text \<open>
  The module throws \<^verbatim>\<open>new Error(message)\<close> at four places; each message is a
  constructor. \<^verbatim>\<open>TypeError\<close> is the engine's own error for calling a method that the
  receiver does not have or reading a property of \<^verbatim>\<open>undefined\<close>.
  \<^item> \<^verbatim>\<open>KeyNeedsKind\<close>: 'A key should contain at least a kind.'
  \<^item> \<^verbatim>\<open>AncestorNeedsId\<close>: 'Invalid key. Ancestor keys require an id or name.'
  \<^item> \<^verbatim>\<open>UnsupportedValue\<close>: 'Unsupported field value, ..., is provided.'
\<close>

datatype error = KeyNeedsKind | AncestorNeedsId | UnsupportedValue | TypeError


section \<open>Key\<close>

text \<open>
  A \<^verbatim>\<open>Key\<close> object: \<^verbatim>\<open>namespace\<close>, \<^verbatim>\<open>kind\<close> (whatever was popped from the path),
  \<^verbatim>\<open>id\<close> (set only from a number), \<^verbatim>\<open>name\<close> (set only from a string) and
  \<^verbatim>\<open>parent\<close>. An unset field is \<open>None\<close>.
\<close>

datatype key = KeyObj
  (key_namespace: "string option")
  (key_kind: jsprim)
  (key_id: "jsnum option")
  (key_name: "string option")
  (key_parent: "key option")

record options =
  namespace :: "string option"
  path :: "jsprim list"

text \<open>
  \<^verbatim>\<open>function Key(options)\<close>. The constructor pops from \<^verbatim>\<open>options.path\<close> and hands
  the same, shortened, options object to the constructor of the parent; nothing in it
  throws.
\<close>

function Key :: "options \<Rightarrow> key" where
  "Key opts =
     (let ident = (if length (path opts) mod 2 = 0 then fst (pop (path opts)) else Undefined);
          path1 = (if length (path opts) mod 2 = 0 then snd (pop (path opts)) else path opts);
          kind = fst (pop path1);
          path2 = snd (pop path1)
      in KeyObj (namespace opts) kind
           (case ident of Num n \<Rightarrow> Some n | _ \<Rightarrow> None)
           (case ident of Str s \<Rightarrow> Some s | _ \<Rightarrow> None)
           (if length path2 > 0 then Some (Key (opts\<lparr>path := path2\<rparr>)) else None))"
  by pat_completeness auto

termination Key
proof (relation "measure (\<lambda>opts. length (path opts))")
  show "wf (measure (\<lambda>opts. length (path opts)))"
    by simp
next
  fix opts :: options and path1 path2 :: "jsprim list"
  assume p1: "path1 = (if length (path opts) mod 2 = 0 then snd (pop (path opts)) else path opts)"
    and p2: "path2 = snd (pop path1)"
    and pos: "0 < length path2"
  have length_snd_pop: "length (snd (pop xs)) = length xs - 1" for xs
    by (simp add: pop_def)
  from p2 pos have "length path2 < length path1"
    by (simp add: length_snd_pop)
  moreover from p1 have "length path1 \<le> length (path opts)"
    by (simp add: length_snd_pop)
  ultimately show "(opts\<lparr>path := path2\<rparr>, opts) \<in> measure (\<lambda>opts. length (path opts))"
    by simp
qed

text \<open>
  The getter of \<^verbatim>\<open>path\<close>:
  \<^verbatim>\<open>arrify(this.parent && this.parent.path).concat([this.kind, this.name || this.id])\<close>.
  \<^verbatim>\<open>arrify(undefined)\<close> is the empty array.
\<close>

definition name_or_id :: "string option \<Rightarrow> jsnum option \<Rightarrow> jsprim" where
  "name_or_id nm i =
     js_or (case nm of None \<Rightarrow> Undefined | Some s \<Rightarrow> Str s)
           (case i of None \<Rightarrow> Undefined | Some n \<Rightarrow> Num n)"

fun key_path :: "key \<Rightarrow> jsprim list" where
  "key_path (KeyObj ns kind i nm None) = [] @ [kind, name_or_id nm i]"
| "key_path (KeyObj ns kind i nm (Some p)) = key_path p @ [kind, name_or_id nm i]"

section \<open>Protocol keys\<close>

text \<open>
  The \<^verbatim>\<open>id\<close> of a protocol path element is an int64 on the wire. It reaches this
  module as a JavaScript number (that is what \<^verbatim>\<open>keyToKeyProto\<close> stores) or, decoded
  from the wire, as its decimal text, as in the example \<^verbatim>\<open>id: '4790047639339008'\<close>
  (directly, or as a Long object whose string form is that text).
\<close>

datatype proto_id = IdUndefined | IdNumber jsnum | IdDecimal int

record path_element =
  pe_kind :: jsprim
  pe_id :: proto_id
  pe_name :: jsprim

record partition =
  pt_namespace :: "string option"

record key_proto =
  partition_id :: "partition option"
  path_element :: "path_element list"

text \<open>\<^verbatim>\<open>Number(path.id)\<close>: \<^verbatim>\<open>Number(undefined)\<close> is \<^verbatim>\<open>NaN\<close>.\<close>

fun Number_id :: "proto_id \<Rightarrow> jsnum" where
  "Number_id IdUndefined = NaN"
| "Number_id (IdNumber n) = n"
| "Number_id (IdDecimal i) = Fin (of_int i)"

text \<open>ToBoolean of the \<^verbatim>\<open>id\<close> field: a decimal text is never empty, a Long is an object.\<close>

fun truthy_id :: "proto_id \<Rightarrow> bool" where
  "truthy_id IdUndefined = False"
| "truthy_id (IdNumber n) = truthy_num n"
| "truthy_id (IdDecimal i) = True"

text \<open>
  The loop of \<^verbatim>\<open>keyToKeyProto\<close> over \<^verbatim>\<open>keyPath\<close> in steps of two. At the group
  starting at index \<^verbatim>\<open>i\<close>, \<^verbatim>\<open>keyPath[i + 1]\<close> reads \<^verbatim>\<open>undefined\<close> beyond the end, and
  \<^verbatim>\<open>i < keyPath.length - 2\<close> says that elements remain after the group.
\<close>

definition group_element :: "jsprim \<Rightarrow> jsprim \<Rightarrow> path_element" where
  "group_element kind val =
     (if truthy val then
        (case val of
           Num n \<Rightarrow> \<lparr>pe_kind = kind, pe_id = IdNumber n, pe_name = Undefined\<rparr>
         | _ \<Rightarrow> \<lparr>pe_kind = kind, pe_id = IdUndefined, pe_name = val\<rparr>)
      else \<lparr>pe_kind = kind, pe_id = IdUndefined, pe_name = Undefined\<rparr>)"

fun keyToKeyProto_loop :: "jsprim list \<Rightarrow> error + path_element list" where
  "keyToKeyProto_loop [] = Inr []"
| "keyToKeyProto_loop [kind] = Inr [group_element kind Undefined]"
| "keyToKeyProto_loop (kind # val # rest) =
     (if \<not> truthy val \<and> rest \<noteq> [] then Inl AncestorNeedsId
      else (case keyToKeyProto_loop rest of
              Inl e \<Rightarrow> Inl e
            | Inr ps \<Rightarrow> Inr (group_element kind val # ps)))"

text \<open>\<^verbatim>\<open>keyPath[0]\<close>.\<close>

definition first_element :: "jsprim list \<Rightarrow> jsprim" where
  "first_element xs = (case xs of [] \<Rightarrow> Undefined | x # _ \<Rightarrow> x)"

definition truthy_namespace :: "string option \<Rightarrow> bool" where
  "truthy_namespace ns = (case ns of None \<Rightarrow> False | Some s \<Rightarrow> s \<noteq> [])"

definition keyToKeyProto :: "key \<Rightarrow> error + key_proto" where
  "keyToKeyProto key =
     (let keyPath = key_path key in
      if \<not> is_string (first_element keyPath) then Inl KeyNeedsKind
      else (case keyToKeyProto_loop keyPath of
              Inl e \<Rightarrow> Inl e
            | Inr els \<Rightarrow>
                Inr \<lparr>partition_id =
                       (if truthy_namespace (key_namespace key)
                        then Some \<lparr>pt_namespace = key_namespace key\<rparr> else None),
                     path_element = els\<rparr>))"

text \<open>
  \<^verbatim>\<open>keyFromKeyProto\<close>: the \<^verbatim>\<open>forEach\<close> pushes onto \<^verbatim>\<open>keyOptions.path\<close>;
  \<^verbatim>\<open>index < proto.path_element.length - 1\<close> says that elements remain after this one.
\<close>

definition element_identifier :: "path_element \<Rightarrow> jsprim" where
  "element_identifier pe = js_or (Num (Number_id (pe_id pe))) (pe_name pe)"

fun keyFromKeyProto_loop :: "path_element list \<Rightarrow> jsprim list \<Rightarrow> error + jsprim list" where
  "keyFromKeyProto_loop [] acc = Inr acc"
| "keyFromKeyProto_loop (pe # rest) acc =
     (if truthy (element_identifier pe)
      then keyFromKeyProto_loop rest (acc @ [pe_kind pe, element_identifier pe])
      else if rest \<noteq> [] then Inl AncestorNeedsId
      else keyFromKeyProto_loop rest (acc @ [pe_kind pe]))"

definition proto_namespace :: "key_proto \<Rightarrow> string option" where
  "proto_namespace proto =
     (case partition_id proto of
        None \<Rightarrow> None
      | Some pt \<Rightarrow> (if truthy_namespace (pt_namespace pt) then pt_namespace pt else None))"

definition keyFromKeyProto :: "key_proto \<Rightarrow> error + key" where
  "keyFromKeyProto proto =
     (case keyFromKeyProto_loop (path_element proto) [] of
        Inl e \<Rightarrow> Inl e
      | Inr p \<Rightarrow> Inr (Key \<lparr>namespace = proto_namespace proto, path = p\<rparr>))"

text \<open>\<^verbatim>\<open>isKeyComplete\<close>: there is no \<^verbatim>\<open>try\<close> around the call of \<^verbatim>\<open>keyToKeyProto\<close>.\<close>

fun isKeyComplete_loop :: "path_element list \<Rightarrow> bool" where
  "isKeyComplete_loop [] = True"
| "isKeyComplete_loop (pe # rest) =
     (if \<not> truthy (pe_kind pe) then False
      else if \<not> truthy_id (pe_id pe) \<and> \<not> truthy (pe_name pe) then False
      else isKeyComplete_loop rest)"

definition isKeyComplete :: "key \<Rightarrow> error + bool" where
  "isKeyComplete key =
     (case keyToKeyProto key of
        Inl e \<Rightarrow> Inl e
      | Inr proto \<Rightarrow> Inr (isKeyComplete_loop (path_element proto)))"

section \<open>Native values\<close>

type_synonym bytes = "8 word list"

text \<open>
  The values that \<^verbatim>\<open>valueToProperty\<close> dispatches on and that \<^verbatim>\<open>propertyToValue\<close>
  returns. \<^verbatim>\<open>VInt\<close> and \<^verbatim>\<open>VDouble\<close> are the wrapper objects with their \<^verbatim>\<open>val_\<close>,
  \<^verbatim>\<open>VNumber\<close> is a plain number, \<^verbatim>\<open>VDate\<close> carries the time value that
  \<^verbatim>\<open>getTime()\<close> returns, \<^verbatim>\<open>VBuffer\<close> is a Node \<^verbatim>\<open>Buffer\<close>, and \<^verbatim>\<open>VObject\<close> lists
  the own properties of a plain object in the order of \<^verbatim>\<open>Object.keys\<close>.
\<close>

datatype native =
    VUndefined
  | VNull
  | VBoolean bool
  | VInt jsnum
  | VDouble jsnum
  | VNumber jsnum
  | VDate jsnum
  | VString string
  | VBuffer bytes
  | VArray "native list"
  | VKey key
  | VObject "(string \<times> native) list"

section \<open>Protocol properties\<close>

text \<open>A field of a protocol object: not there, \<^verbatim>\<open>null\<close>, or holding a value.\<close>

datatype 'a field = FUndefined | FNull | FVal (field_val: 'a)

text \<open>\<^verbatim>\<open>function exists(value)\<close>.\<close>

definition exists :: "'a field \<Rightarrow> bool" where
  "exists v = (v \<noteq> FNull \<and> v \<noteq> FUndefined)"

text \<open>
  What \<^verbatim>\<open>blob_value\<close> holds: the Node \<^verbatim>\<open>Buffer\<close> that \<^verbatim>\<open>valueToProperty\<close> stores
  there, or the \<^verbatim>\<open>ByteBuffer\<close> that the protocol buffer decoder delivers. Only the
  second has a \<^verbatim>\<open>toBuffer\<close> method.
\<close>

datatype blob = Buffer bytes | ByteBuffer bytes

text \<open>
  A protocol property. \<^verbatim>\<open>entity_value\<close> is represented by its \<^verbatim>\<open>property\<close> array
  of \<^verbatim>\<open>{name, value}\<close> pairs; an entity without that array reads as one with an empty
  array (\<^verbatim>\<open>proto.property || []\<close>).
\<close>

datatype property = Property
  (integer_value: "jsnum field")
  (double_value: "jsnum field")
  (string_value: "string field")
  (blob_value: "blob field")
  (timestamp_microseconds_value: "jsnum field")
  (key_value: "key_proto field")
  (entity_value: "(string \<times> property) list field")
  (boolean_value: "bool field")
  (list_value: "property list field")
  (indexed: "bool field")

text \<open>\<^verbatim>\<open>var p = {};\<close> followed by the assignment of one field.\<close>

definition empty_property :: property where
  "empty_property = Property FUndefined FUndefined FUndefined FUndefined FUndefined
                             FUndefined FUndefined FUndefined FUndefined FUndefined"

definition set_integer_value :: "jsnum \<Rightarrow> property" where
  "set_integer_value n = Property (FVal n) FUndefined FUndefined FUndefined FUndefined
                                  FUndefined FUndefined FUndefined FUndefined FUndefined"

definition set_double_value :: "jsnum \<Rightarrow> property" where
  "set_double_value n = Property FUndefined (FVal n) FUndefined FUndefined FUndefined
                                 FUndefined FUndefined FUndefined FUndefined FUndefined"

definition set_string_value :: "string \<Rightarrow> property" where
  "set_string_value s = Property FUndefined FUndefined (FVal s) FUndefined FUndefined
                                 FUndefined FUndefined FUndefined FUndefined FUndefined"

definition set_blob_value :: "blob \<Rightarrow> property" where
  "set_blob_value b = Property FUndefined FUndefined FUndefined (FVal b) FUndefined
                               FUndefined FUndefined FUndefined FUndefined FUndefined"

definition set_timestamp_microseconds_value :: "jsnum \<Rightarrow> property" where
  "set_timestamp_microseconds_value n =
     Property FUndefined FUndefined FUndefined FUndefined (FVal n)
              FUndefined FUndefined FUndefined FUndefined FUndefined"

definition set_key_value :: "key_proto \<Rightarrow> property" where
  "set_key_value k = Property FUndefined FUndefined FUndefined FUndefined FUndefined
                              (FVal k) FUndefined FUndefined FUndefined FUndefined"

definition set_entity_value :: "(string \<times> property) list \<Rightarrow> property" where
  "set_entity_value e = Property FUndefined FUndefined FUndefined FUndefined FUndefined
                                 FUndefined (FVal e) FUndefined FUndefined (FVal False)"

definition set_boolean_value :: "bool \<Rightarrow> property" where
  "set_boolean_value b = Property FUndefined FUndefined FUndefined FUndefined FUndefined
                                  FUndefined FUndefined (FVal b) FUndefined FUndefined"

definition set_list_value :: "property list \<Rightarrow> property" where
  "set_list_value l = Property FUndefined FUndefined FUndefined FUndefined FUndefined
                               FUndefined FUndefined FUndefined (FVal l) FUndefined"

section \<open>Numbers: printing, parsing, dates\<close>

text \<open>Rounding towards zero.\<close>

definition trunc :: "rat \<Rightarrow> int" where
  "trunc q = (if 0 \<le> q then \<lfloor>q\<rfloor> else \<lceil>q\<rceil>)"

text \<open>\<^verbatim>\<open>v % 1\<close>: the remainder has the sign of the dividend; it is \<^verbatim>\<open>NaN\<close> for a non-finite \<^verbatim>\<open>v\<close>.\<close>

fun mod1 :: "jsnum \<Rightarrow> jsnum" where
  "mod1 (Fin q) = Fin (q - of_int (trunc q))"
| "mod1 n = NaN"

text \<open>The first digit of a non-negative integer and the number of its decimal digits.\<close>

function leading_digit :: "int \<Rightarrow> int" where
  "leading_digit n = (if n < 10 then n else leading_digit (n div 10))"
  by pat_completeness auto
termination
  by (relation "measure nat") auto

function ndigits :: "int \<Rightarrow> nat" where
  "ndigits n = (if n < 10 then 1 else Suc (ndigits (n div 10)))"
  by pat_completeness auto
termination
  by (relation "measure nat") auto

text \<open>
  The first significant digit of a positive rational: for \<open>1 \<le> q\<close> that of its integer part;
  for \<open>q < 1\<close>, with \<open>d\<close> the number of digits of \<open>\<lfloor>1 / q\<rfloor>\<close>, the product \<open>q * 10 ^ d\<close> lies
  in \<open>(1, 10]\<close>.
\<close>

definition first_digit :: "rat \<Rightarrow> int" where
  "first_digit q =
     (if 1 \<le> q then leading_digit \<lfloor>q\<rfloor>
      else (let s = q * 10 ^ ndigits \<lfloor>1 / q\<rfloor> in if s = 10 then 1 else \<lfloor>s\<rfloor>))"

text \<open>
  \<^verbatim>\<open>parseInt(x.toString(), 10)\<close> for a number \<^verbatim>\<open>x\<close>. \<^verbatim>\<open>Number.prototype.toString\<close>
  prints \<^verbatim>\<open>NaN\<close>, \<^verbatim>\<open>Infinity\<close> and \<^verbatim>\<open>-Infinity\<close>, of which \<^verbatim>\<open>parseInt\<close> reads no
  digit; it prints a number of magnitude in \<open>[10\<^sup>-\<^sup>6, 10\<^sup>2\<^sup>1)\<close> in positional notation, of
  which \<^verbatim>\<open>parseInt\<close> reads the integer part; and any other non-zero number in exponent
  notation, \<^verbatim>\<open>d.ddde+NN\<close>, of which \<^verbatim>\<open>parseInt\<close> reads the sign and the first digit.
  (The digits printed for a floating-point number are the shortest that identify it; the
  first digit is taken here from the exact value.) A \<^verbatim>\<open>Long\<close> prints its decimal digits
  and so behaves as the number of the same value.
\<close>

definition parseInt_toString :: "jsnum \<Rightarrow> jsnum" where
  "parseInt_toString x =
     (case x of
        Fin q \<Rightarrow>
          (if q = 0 then Fin 0
           else if \<bar>q\<bar> < 1 / 10 ^ 6 \<or> 10 ^ 21 \<le> \<bar>q\<bar>
           then Fin (sgn q * of_int (first_digit \<bar>q\<bar>))
           else Fin (of_int (trunc q)))
      | _ \<Rightarrow> NaN)"

text \<open>\<^verbatim>\<open>x * 1000\<close> and \<^verbatim>\<open>x / 1000\<close>.\<close>

fun times1000 :: "jsnum \<Rightarrow> jsnum" where
  "times1000 (Fin q) = Fin (q * 1000)"
| "times1000 n = n"

fun div1000 :: "jsnum \<Rightarrow> jsnum" where
  "div1000 (Fin q) = Fin (q / 1000)"
| "div1000 n = n"

text \<open>
  \<^verbatim>\<open>new Date(x).getTime()\<close> for a number \<^verbatim>\<open>x\<close> (the TimeClip of the language
  specification): a non-finite or too large value gives an invalid date, whose time value
  is \<^verbatim>\<open>NaN\<close>; a fraction of a millisecond is cut off.
\<close>

fun TimeClip :: "jsnum \<Rightarrow> jsnum" where
  "TimeClip (Fin q) = (if 8640000000000000 < \<bar>q\<bar> then NaN else Fin (of_int (trunc q)))"
| "TimeClip n = NaN"

section \<open>Plain objects\<close>

text \<open>
  \<^verbatim>\<open>Object.keys\<close> lists the own properties whose names are array indices (the decimal
  text, without leading zeros, of a number below \<open>2\<^sup>3\<^sup>2 - 1\<close>) first, in ascending
  numeric order, and the others after them in the order of their creation.
\<close>

definition is_digit :: "char \<Rightarrow> bool" where
  "is_digit c = (48 \<le> (of_char c :: int) \<and> (of_char c :: int) \<le> 57)"

definition dec_value :: "string \<Rightarrow> int" where
  "dec_value s = foldl (\<lambda>a c. 10 * a + (of_char c - 48)) 0 s"

definition is_array_index :: "string \<Rightarrow> bool" where
  "is_array_index s =
     (s \<noteq> [] \<and> list_all is_digit s \<and> (length s = 1 \<or> hd s \<noteq> CHR ''0'')
      \<and> dec_value s < 2 ^ 32 - 1)"

text \<open>Does the property named \<open>k'\<close> come before a new property named \<open>k\<close>?\<close>

definition precedes :: "string \<Rightarrow> string \<Rightarrow> bool" where
  "precedes k k' =
     (if is_array_index k then is_array_index k' \<and> dec_value k' < dec_value k else True)"

text \<open>
  \<^verbatim>\<open>acc[name] = value\<close> on an object created by \<^verbatim>\<open>{}\<close>. Assigning to an existing
  property keeps its place. Assigning to \<^verbatim>\<open>__proto__\<close> runs the setter inherited from
  \<^verbatim>\<open>Object.prototype\<close> and creates no own property.
\<close>

definition obj_set :: "(string \<times> 'v) list \<Rightarrow> string \<Rightarrow> 'v \<Rightarrow> (string \<times> 'v) list" where
  "obj_set obj k v =
     (if k = ''__proto__'' then obj
      else if k \<in> set (map fst obj) then map (\<lambda>(k', v'). if k' = k then (k', v) else (k', v')) obj
      else takeWhile (\<lambda>(k', v'). precedes k k') obj @ [(k, v)]
           @ dropWhile (\<lambda>(k', v'). precedes k k') obj)"

section \<open>Value codec\<close>

text \<open>\<^verbatim>\<open>property.blob_value.toBuffer()\<close>.\<close>

fun toBuffer :: "blob \<Rightarrow> error + bytes" where
  "toBuffer (ByteBuffer bs) = Inr bs"
| "toBuffer (Buffer bs) = Inl TypeError"

text \<open>
  \<^verbatim>\<open>propertyToValue\<close>, with the loop over \<^verbatim>\<open>list_value\<close> and the \<^verbatim>\<open>reduce\<close> of
  \<^verbatim>\<open>entityFromEntityProto\<close>, whose accumulator starts as \<^verbatim>\<open>{}\<close>. A function that
  falls off its end returns \<^verbatim>\<open>undefined\<close>.
\<close>

function propertyToValue :: "property \<Rightarrow> error + native"
  and propertyToValue_list :: "property list \<Rightarrow> error + native list"
  and entityFromEntityProto_reduce ::
        "(string \<times> property) list \<Rightarrow> (string \<times> native) list \<Rightarrow> error + (string \<times> native) list"
where
  "propertyToValue p =
     (if exists (integer_value p) then
        Inr (VNumber (parseInt_toString (field_val (integer_value p))))
      else if exists (double_value p) then
        Inr (VNumber (field_val (double_value p)))
      else if exists (string_value p) then
        Inr (VString (field_val (string_value p)))
      else if exists (blob_value p) then
        (case toBuffer (field_val (blob_value p)) of
           Inl e \<Rightarrow> Inl e
         | Inr bs \<Rightarrow> Inr (VBuffer bs))
      else if exists (timestamp_microseconds_value p) then
        Inr (VDate (TimeClip (div1000
               (parseInt_toString (field_val (timestamp_microseconds_value p))))))
      else if exists (key_value p) then
        (case keyFromKeyProto (field_val (key_value p)) of
           Inl e \<Rightarrow> Inl e
         | Inr k \<Rightarrow> Inr (VKey k))
      else if exists (entity_value p) then
        (case entityFromEntityProto_reduce (field_val (entity_value p)) [] of
           Inl e \<Rightarrow> Inl e
         | Inr obj \<Rightarrow> Inr (VObject obj))
      else if exists (boolean_value p) then
        Inr (VBoolean (field_val (boolean_value p)))
      else if exists (list_value p) then
        (case propertyToValue_list (field_val (list_value p)) of
           Inl e \<Rightarrow> Inl e
         | Inr vs \<Rightarrow> Inr (VArray vs))
      else Inr VUndefined)"
| "propertyToValue_list [] = Inr []"
| "propertyToValue_list (p # ps) =
     (case propertyToValue p of
        Inl e \<Rightarrow> Inl e
      | Inr v \<Rightarrow> (case propertyToValue_list ps of
                    Inl e \<Rightarrow> Inl e
                  | Inr vs \<Rightarrow> Inr (v # vs)))"
| "entityFromEntityProto_reduce [] acc = Inr acc"
| "entityFromEntityProto_reduce ((nm, pv) # rest) acc =
     (case propertyToValue pv of
        Inl e \<Rightarrow> Inl e
      | Inr v \<Rightarrow> entityFromEntityProto_reduce rest (obj_set acc nm v))"
  by pat_completeness auto

termination
proof (relation "measure (\<lambda>x. case x of
          Inl p \<Rightarrow> size p
        | Inr (Inl ps) \<Rightarrow> size_list size ps
        | Inr (Inr (nvs, acc)) \<Rightarrow> size_list (size_prod (\<lambda>x. 0) size) nvs)")
  fix p :: property
  assume "exists (entity_value p)"
  then obtain e where "entity_value p = FVal e"
    by (cases "entity_value p") (simp_all add: exists_def)
  then show "(Inr (Inr (field_val (entity_value p), [])), Inl p)
      \<in> measure (\<lambda>x. case x of
          Inl p \<Rightarrow> size p
        | Inr (Inl ps) \<Rightarrow> size_list size ps
        | Inr (Inr (nvs, acc)) \<Rightarrow> size_list (size_prod (\<lambda>x. 0) size) nvs)"
    by (cases p) simp
next
  fix p :: property
  assume "exists (list_value p)"
  then obtain l where "list_value p = FVal l"
    by (cases "list_value p") (simp_all add: exists_def)
  then show "(Inr (Inl (field_val (list_value p))), Inl p)
      \<in> measure (\<lambda>x. case x of
          Inl p \<Rightarrow> size p
        | Inr (Inl ps) \<Rightarrow> size_list size ps
        | Inr (Inr (nvs, acc)) \<Rightarrow> size_list (size_prod (\<lambda>x. 0) size) nvs)"
    by (cases p) simp
qed simp_all

definition entityFromEntityProto :: "(string \<times> property) list \<Rightarrow> error + (string \<times> native) list" where
  "entityFromEntityProto properties = entityFromEntityProto_reduce properties []"

text \<open>
  \<^verbatim>\<open>valueToProperty\<close>, with the \<^verbatim>\<open>v.map\<close> over an array and the \<^verbatim>\<open>forEach\<close> over
  the keys of an object. The tests of the source are tried in its order: boolean,
  \<^verbatim>\<open>Int\<close>, \<^verbatim>\<open>Double\<close>, number, \<^verbatim>\<open>Date\<close>, string, \<^verbatim>\<open>Buffer\<close>, array, \<^verbatim>\<open>Key\<close>,
  object with at least one key; anything else is thrown back.
\<close>

fun valueToProperty :: "native \<Rightarrow> error + property"
  and valueToProperty_map :: "native list \<Rightarrow> error + property list"
  and valueToProperty_forEach :: "(string \<times> native) list \<Rightarrow> error + (string \<times> property) list"
where
  "valueToProperty (VBoolean b) = Inr (set_boolean_value b)"
| "valueToProperty (VInt n) = Inr (set_integer_value n)"
| "valueToProperty (VDouble n) = Inr (set_double_value n)"
| "valueToProperty (VNumber n) =
     (if mod1 n = Fin 0 then Inr (set_integer_value n) else Inr (set_double_value n))"
| "valueToProperty (VDate t) = Inr (set_timestamp_microseconds_value (times1000 t))"
| "valueToProperty (VString s) = Inr (set_string_value s)"
| "valueToProperty (VBuffer bs) = Inr (set_blob_value (Buffer bs))"
| "valueToProperty (VArray vs) =
     (case valueToProperty_map vs of
        Inl e \<Rightarrow> Inl e
      | Inr ps \<Rightarrow> Inr (set_list_value ps))"
| "valueToProperty (VKey k) =
     (case keyToKeyProto k of
        Inl e \<Rightarrow> Inl e
      | Inr kp \<Rightarrow> Inr (set_key_value kp))"
| "valueToProperty (VObject kvs) =
     (if length kvs > 0 then
        (case valueToProperty_forEach kvs of
           Inl e \<Rightarrow> Inl e
         | Inr ps \<Rightarrow> Inr (set_entity_value ps))
      else Inl UnsupportedValue)"
| "valueToProperty VUndefined = Inl UnsupportedValue"
| "valueToProperty VNull = Inl UnsupportedValue"
| "valueToProperty_map [] = Inr []"
| "valueToProperty_map (v # vs) =
     (case valueToProperty v of
        Inl e \<Rightarrow> Inl e
      | Inr p \<Rightarrow> (case valueToProperty_map vs of
                    Inl e \<Rightarrow> Inl e
                  | Inr ps \<Rightarrow> Inr (p # ps)))"
| "valueToProperty_forEach [] = Inr []"
| "valueToProperty_forEach ((k, v) # kvs) =
     (case valueToProperty v of
        Inl e \<Rightarrow> Inl e
      | Inr p \<Rightarrow> (case valueToProperty_forEach kvs of
                    Inl e \<Rightarrow> Inl e
                  | Inr ps \<Rightarrow> Inr ((k, p) # ps)))"

section \<open>Query compiler\<close>

text \<open>
  Reading a property of an object literal, \<^verbatim>\<open>TABLE[key]\<close>: an own property, or
  \<^verbatim>\<open>undefined\<close>, or, for the names that every object inherits from
  \<^verbatim>\<open>Object.prototype\<close>, the inherited member.
\<close>

datatype lookup = Found string | NotFound | Inherited string

definition object_prototype_names :: "string list" where
  "object_prototype_names =
     [''constructor'', ''toString'', ''toLocaleString'', ''valueOf'', ''hasOwnProperty'',
      ''isPrototypeOf'', ''propertyIsEnumerable'', ''__proto__'', ''__defineGetter__'',
      ''__defineSetter__'', ''__lookupGetter__'', ''__lookupSetter__'']"

definition table_lookup :: "(string \<times> string) list \<Rightarrow> string \<Rightarrow> lookup" where
  "table_lookup t k =
     (case map_of t k of
        Some v \<Rightarrow> Found v
      | None \<Rightarrow> (if k \<in> set object_prototype_names then Inherited k else NotFound))"

definition OP_TO_OPERATOR :: "(string \<times> string) list" where
  "OP_TO_OPERATOR =
     [(''='', ''EQUAL''),
      (''>'', ''GREATER_THAN''),
      (''>='', ''GREATER_THAN_OR_EQUAL''),
      (''<'', ''LESS_THAN''),
      (''<='', ''LESS_THAN_OR_EQUAL''),
      (''HAS_ANCESTOR'', ''HAS_ANCESTOR'')]"

definition SIGN_TO_ORDER :: "(string \<times> string) list" where
  "SIGN_TO_ORDER = [(''-'', ''DESCENDING''), (''+'', ''ASCENDING'')]"

record query_filter =
  filter_name :: string
  filter_op :: string
  filter_val :: native

record query_order =
  order_name :: string
  order_sign :: string

record query =
  kinds :: "string list"
  filters :: "query_filter list"
  orders :: "query_order list"
  groupByVal :: "string list"
  selectVal :: "string list"
  startVal :: "string option"
  endVal :: "string option"
  limitVal :: jsnum
  offsetVal :: jsnum

text \<open>
  The protocol query. \<^verbatim>\<open>{ property: { name: v } }\<close> and \<^verbatim>\<open>{ name: k }\<close> are
  represented by the name; \<^verbatim>\<open>new Buffer(s, 'base64')\<close> by the text it decodes.
\<close>

record property_filter =
  pf_property :: string
  pf_operator :: lookup
  pf_value :: property

record composite_filter =
  cf_filter :: "property_filter list"
  cf_operator :: string

record property_order =
  po_property :: string
  po_direction :: lookup

datatype cursor = Base64 string

record query_proto =
  qp_projection :: "string list"
  qp_kind :: "string list"
  qp_filter :: "composite_filter option"
  qp_order :: "property_order list"
  qp_group_by :: "string list"
  qp_start_cursor :: "cursor option"
  qp_end_cursor :: "cursor option"
  qp_offset :: "jsnum option"
  qp_limit :: "jsnum option"

text \<open>\<^verbatim>\<open>x > 0\<close> for a number; false for \<^verbatim>\<open>NaN\<close>.\<close>

fun greater_zero :: "jsnum \<Rightarrow> bool" where
  "greater_zero (Fin q) = (0 < q)"
| "greater_zero PosInf = True"
| "greater_zero n = False"

text \<open>
  The value of one filter. For the field \<^verbatim>\<open>__key__\<close> the source calls
  \<^verbatim>\<open>keyToKeyProto(f.val)\<close>, which reads \<^verbatim>\<open>f.val.path[0]\<close>: on a value other than a
  \<^verbatim>\<open>Key\<close> the property \<^verbatim>\<open>path\<close> is undefined and indexing it is a \<^verbatim>\<open>TypeError\<close>
  (a plain object that carries a \<^verbatim>\<open>path\<close> array of its own is not modelled).
\<close>

definition filter_value :: "query_filter \<Rightarrow> error + property" where
  "filter_value f =
     (if filter_name f = ''__key__'' then
        (case filter_val f of
           VKey k \<Rightarrow> (case keyToKeyProto k of
                        Inl e \<Rightarrow> Inl e
                      | Inr kp \<Rightarrow> Inr (set_key_value kp))
         | _ \<Rightarrow> Inl TypeError)
      else valueToProperty (filter_val f))"

fun filters_map :: "query_filter list \<Rightarrow> error + property_filter list" where
  "filters_map [] = Inr []"
| "filters_map (f # fs) =
     (case filter_value f of
        Inl e \<Rightarrow> Inl e
      | Inr v \<Rightarrow>
          (case filters_map fs of
             Inl e \<Rightarrow> Inl e
           | Inr pfs \<Rightarrow>
               Inr (\<lparr>pf_property = filter_name f,
                     pf_operator = table_lookup OP_TO_OPERATOR (filter_op f),
                     pf_value = v\<rparr> # pfs)))"

definition truthy_string :: "string option \<Rightarrow> bool" where
  "truthy_string s = (case s of None \<Rightarrow> False | Some t \<Rightarrow> t \<noteq> [])"

definition queryToQueryProto :: "query \<Rightarrow> error + query_proto" where
  "queryToQueryProto q =
     (case (if length (filters q) > 0
            then (case filters_map (filters q) of
                    Inl e \<Rightarrow> Inl e
                  | Inr pfs \<Rightarrow> Inr (Some \<lparr>cf_filter = pfs, cf_operator = ''AND''\<rparr>))
            else Inr None) of
        Inl e \<Rightarrow> Inl e
      | Inr flt \<Rightarrow>
          Inr \<lparr>qp_projection = selectVal q,
               qp_kind = kinds q,
               qp_filter = flt,
               qp_order = map (\<lambda>ord. \<lparr>po_property = order_name ord,
                                        po_direction = table_lookup SIGN_TO_ORDER (order_sign ord)\<rparr>)
                              (orders q),
               qp_group_by = groupByVal q,
               qp_start_cursor =
                 (if truthy_string (startVal q) then Some (Base64 (the (startVal q))) else None),
               qp_end_cursor =
                 (if truthy_string (endVal q) then Some (Base64 (the (endVal q))) else None),
               qp_offset = (if greater_zero (offsetVal q) then Some (offsetVal q) else None),
               qp_limit = (if greater_zero (limitVal q) then Some (limitVal q) else None)\<rparr>)"

section \<open>Notions used to state the properties\<close>

text \<open>The groups that a loop in steps of two sees: \<^verbatim>\<open>(keyPath[i], keyPath[i + 1])\<close>.\<close>

fun stride2 :: "jsprim list \<Rightarrow> (jsprim \<times> jsprim) list" where
  "stride2 [] = []"
| "stride2 [kind] = [(kind, Undefined)]"
| "stride2 (kind # val # rest) = (kind, val) # stride2 rest"


text \<open>A key and its ancestors, the root first.\<close>

fun key_chain :: "key \<Rightarrow> key list" where
  "key_chain (KeyObj ns kind i nm None) = [KeyObj ns kind i nm None]"
| "key_chain (KeyObj ns kind i nm (Some p)) = key_chain p @ [KeyObj ns kind i nm (Some p)]"

text \<open>The pair of kind and identifier that a key contributes to its path.\<close>

definition segment :: "key \<Rightarrow> jsprim \<times> jsprim" where
  "segment k = (key_kind k, name_or_id (key_name k) (key_id k))"

text \<open>
  What the constructor keeps of a path element in identifier position and the getter
  gives back: a number, a non-empty string, and \<^verbatim>\<open>undefined\<close> for anything else.
\<close>

definition slot :: "jsprim \<Rightarrow> jsprim" where
  "slot v = (case v of Num n \<Rightarrow> Num n | Str s \<Rightarrow> (if s = [] then Undefined else Str s)
             | _ \<Rightarrow> Undefined)"

fun derived_path :: "jsprim list \<Rightarrow> jsprim list" where
  "derived_path [] = []"
| "derived_path [kind] = [kind, Undefined]"
| "derived_path (kind # val # rest) = kind # slot val # derived_path rest"

text \<open>A key segment whose id is the number 0 or whose name is the empty string.\<close>

definition zero_id_or_empty_name :: "key \<Rightarrow> bool" where
  "zero_id_or_empty_name a =
     (key_id a = Some (Fin 0) \<and> key_name a = None \<or> key_name a = Some [] \<and> key_id a = None)"


text \<open>
  The value fields of a protocol property in the order in which \<^verbatim>\<open>propertyToValue\<close>
  is specified to look at them, with the test and the conversion of each.
\<close>

datatype value_field =
    IntegerValue | DoubleValue | StringValue | BlobValue | TimestampValue
  | KeyValue | EntityValue | BooleanValue | ListValue

definition precedence :: "value_field list" where
  "precedence = [IntegerValue, DoubleValue, StringValue, BlobValue, TimestampValue,
                 KeyValue, EntityValue, BooleanValue, ListValue]"

fun present :: "property \<Rightarrow> value_field \<Rightarrow> bool" where
  "present p IntegerValue = exists (integer_value p)"
| "present p DoubleValue = exists (double_value p)"
| "present p StringValue = exists (string_value p)"
| "present p BlobValue = exists (blob_value p)"
| "present p TimestampValue = exists (timestamp_microseconds_value p)"
| "present p KeyValue = exists (key_value p)"
| "present p EntityValue = exists (entity_value p)"
| "present p BooleanValue = exists (boolean_value p)"
| "present p ListValue = exists (list_value p)"

fun convert :: "property \<Rightarrow> value_field \<Rightarrow> error + native" where
  "convert p IntegerValue = Inr (VNumber (parseInt_toString (field_val (integer_value p))))"
| "convert p DoubleValue = Inr (VNumber (field_val (double_value p)))"
| "convert p StringValue = Inr (VString (field_val (string_value p)))"
| "convert p BlobValue = map_sum id VBuffer (toBuffer (field_val (blob_value p)))"
| "convert p TimestampValue =
     Inr (VDate (TimeClip (div1000
            (parseInt_toString (field_val (timestamp_microseconds_value p))))))"
| "convert p KeyValue = map_sum id VKey (keyFromKeyProto (field_val (key_value p)))"
| "convert p EntityValue = map_sum id VObject (entityFromEntityProto (field_val (entity_value p)))"
| "convert p BooleanValue = Inr (VBoolean (field_val (boolean_value p)))"
| "convert p ListValue = map_sum id VArray (propertyToValue_list (field_val (list_value p)))"

text \<open>A number whose fractional part is zero.\<close>

definition zero_fraction :: "jsnum \<Rightarrow> bool" where
  "zero_fraction n = (case n of Fin q \<Rightarrow> frac q = 0 | _ \<Rightarrow> False)"

text \<open>The operators of the table \<^verbatim>\<open>OP_TO_OPERATOR\<close>.\<close>

definition known_ops :: "string list" where
  "known_ops = [''='', ''>'', ''>='', ''<'', ''<='', ''HAS_ANCESTOR'']"








section \<open>Unfolding propertyToValue\<close>

lemmas propertyToValue_unfold = propertyToValue.simps(1)

declare propertyToValue.simps(1) [simp del]

section \<open>Facts about the Key constructor\<close>

declare Key.simps [simp del]

lemma pop_Nil [simp]: "pop [] = (Undefined, [])"
  by (simp add: pop_def)

lemma pop_snoc [simp]: "pop (p @ [k]) = (k, p)"
  by (simp add: pop_def)

lemma pop_single [simp]: "pop [k] = (k, [])"
  by (simp add: pop_def)

lemma pop_snoc2 [simp]: "pop (p @ [k, v]) = (v, p @ [k])"
  using pop_snoc [of "p @ [k]" v] by simp

lemma Key_Nil: "Key \<lparr>namespace = ns, path = []\<rparr> = KeyObj ns Undefined None None None"
  by (subst Key.simps) simp

lemma Key_snoc_single:
  "even (length p) \<Longrightarrow> Key \<lparr>namespace = ns, path = p @ [k]\<rparr> =
     KeyObj ns k None None (if p = [] then None else Some (Key \<lparr>namespace = ns, path = p\<rparr>))"
  by (subst Key.simps) (simp add: Let_def mod_Suc even_iff_mod_2_eq_zero)

lemma Key_snoc_pair:
  "even (length p) \<Longrightarrow> Key \<lparr>namespace = ns, path = p @ [k, v]\<rparr> =
     KeyObj ns k (case v of Num n \<Rightarrow> Some n | _ \<Rightarrow> None) (case v of Str s \<Rightarrow> Some s | _ \<Rightarrow> None)
       (if p = [] then None else Some (Key \<lparr>namespace = ns, path = p\<rparr>))"
  by (subst Key.simps) (simp add: Let_def mod_Suc even_iff_mod_2_eq_zero)

lemma snoc_cases:
  fixes p :: "'a list"
  assumes "p \<noteq> []"
  obtains (odd) q k where "p = q @ [k]" "even (length q)"
        | (even) q k v where "p = q @ [k, v]" "even (length q)"
proof (cases "even (length p)")
  case False
  from assms obtain q k where p: "p = q @ [k]" by (metis rev_exhaust)
  with False have "even (length q)" by simp
  with p show ?thesis by (rule odd)
next
  case True
  from assms obtain q1 v where p: "p = q1 @ [v]" by (metis rev_exhaust)
  with True have "q1 \<noteq> []" by auto
  then obtain q k where q1: "q1 = q @ [k]" by (metis rev_exhaust)
  with p True have "even (length q)" by simp
  moreover from p q1 have "p = q @ [k, v]" by simp
  ultimately show ?thesis using even by blast
qed

lemma derived_path_snoc_pair:
  "even (length p) \<Longrightarrow> derived_path (p @ [k, v]) = derived_path p @ [k, slot v]"
  by (induction p rule: derived_path.induct) simp_all

lemma derived_path_snoc_single:
  "even (length p) \<Longrightarrow> derived_path (p @ [k]) = derived_path p @ [k, Undefined]"
  by (induction p rule: derived_path.induct) simp_all

lemma name_or_id_slot:
  "name_or_id (case v of Str s \<Rightarrow> Some s | _ \<Rightarrow> None) (case v of Num n \<Rightarrow> Some n | _ \<Rightarrow> None) = slot v"
  by (cases v) (simp_all add: name_or_id_def js_or_def slot_def)

lemma key_path_Key:
  "p \<noteq> [] \<Longrightarrow> key_path (Key \<lparr>namespace = ns, path = p\<rparr>) = derived_path p"
proof (induction "length p" arbitrary: p rule: less_induct)
  case less
  from \<open>p \<noteq> []\<close> show ?case
  proof (cases p rule: snoc_cases)
    case (odd q k)
    show ?thesis
    proof (cases "q = []")
      case True
      with odd show ?thesis
        by (simp add: Key_snoc_single [of "[]", simplified] name_or_id_def js_or_def)
    next
      case False
      with odd less.hyps [of q] show ?thesis
        by (simp add: Key_snoc_single derived_path_snoc_single name_or_id_def js_or_def)
    qed
  next
    case (even q k v)
    show ?thesis
    proof (cases "q = []")
      case True
      with even show ?thesis
        by (simp add: Key_snoc_pair [of "[]", simplified] name_or_id_slot)
    next
      case False
      with even less.hyps [of q] show ?thesis
        by (simp add: Key_snoc_pair derived_path_snoc_pair name_or_id_slot)
    qed
  qed
qed

lemma first_element_derived_path: "first_element (derived_path p) = first_element p"
  by (cases p rule: derived_path.cases) (simp_all add: first_element_def)

lemma first_element_key_path_Key:
  "first_element (key_path (Key \<lparr>namespace = ns, path = p\<rparr>)) = first_element p"
proof (cases "p = []")
  case True
  then show ?thesis by (simp add: Key_Nil first_element_def)
next
  case False
  then show ?thesis by (simp add: key_path_Key first_element_derived_path)
qed

lemma key_kind_Key:
  "key_kind (Key \<lparr>namespace = ns, path = p\<rparr>) =
     (if p = [] then Undefined
      else if even (length p) then p ! (length p - 2) else last p)"
proof (cases "p = []")
  case True
  then show ?thesis by (simp add: Key_Nil)
next
  case False
  then show ?thesis
  proof (cases p rule: snoc_cases)
    case (odd q k)
    then show ?thesis by (simp add: Key_snoc_single)
  next
    case (even q k v)
    then show ?thesis by (simp add: Key_snoc_pair nth_append)
  qed
qed

lemma key_namespace_Key: "key_namespace (Key opts) = namespace opts"
  by (subst Key.simps) (simp add: Let_def)

section \<open>Facts about the path of a key\<close>

lemma key_path_parent:
  "key_path k = (case key_parent k of None \<Rightarrow> [] | Some p \<Rightarrow> key_path p)
                @ [key_kind k, name_or_id (key_name k) (key_id k)]"
  by (cases k rule: key_path.cases) simp_all

lemma length_key_path: "length (key_path k) = 2 * length (key_chain k)"
  by (induction k rule: key_path.induct) simp_all

lemma stride2_append_pair:
  "even (length xs) \<Longrightarrow> stride2 (xs @ [a, b]) = stride2 xs @ [(a, b)]"
  by (induction xs rule: stride2.induct) simp_all

lemma stride2_key_path: "stride2 (key_path k) = map segment (key_chain k)"
proof (induction k rule: key_path.induct)
  case (1 ns kind i nm)
  show ?case by (simp add: segment_def)
next
  case (2 ns kind i nm p)
  then show ?case
    by (simp add: stride2_append_pair length_key_path segment_def)
qed

lemma key_chain_not_Nil: "key_chain k \<noteq> []"
  by (cases k rule: key_chain.cases) simp_all

lemma last_key_chain: "last (key_chain k) = k"
  by (cases k rule: key_chain.cases) simp_all

section \<open>Facts about keyToKeyProto\<close>


lemma keyToKeyProto_loop_stride2:
  "keyToKeyProto_loop xs =
     (if \<exists>g \<in> set (butlast (stride2 xs)). \<not> truthy (snd g) then Inl AncestorNeedsId
      else Inr (map (\<lambda>(kind, val). group_element kind val) (stride2 xs)))"
proof (induction xs rule: keyToKeyProto_loop.induct)
  case 1
  show ?case by simp
next
  case (2 kind)
  show ?case by simp
next
  case (3 kind val rest)
  have ne: "stride2 rest = [] \<longleftrightarrow> rest = []"
    by (cases rest rule: stride2.cases) simp_all
  show ?case
  proof (cases "rest = []")
    case True
    then show ?thesis by simp
  next
    case False
    with ne have "stride2 rest \<noteq> []" by simp
    with 3 False show ?thesis by auto
  qed
qed

lemma keyToKeyProto_eq:
  "keyToKeyProto key =
     (if \<not> is_string (first_element (key_path key)) then Inl KeyNeedsKind
      else if \<exists>g \<in> set (butlast (stride2 (key_path key))). \<not> truthy (snd g)
      then Inl AncestorNeedsId
      else Inr \<lparr>partition_id =
                  (if truthy_namespace (key_namespace key)
                   then Some \<lparr>pt_namespace = key_namespace key\<rparr> else None),
                path_element =
                  map (\<lambda>(kind, val). group_element kind val) (stride2 (key_path key))\<rparr>)"
  by (simp add: keyToKeyProto_def keyToKeyProto_loop_stride2 Let_def)

lemma truthy_group_element:
  "(truthy_id (pe_id (group_element kind val)) \<or> truthy (pe_name (group_element kind val)))
     \<longleftrightarrow> truthy val"
  by (cases val) (auto simp: group_element_def)

lemma isKeyComplete_loop_map:
  "isKeyComplete_loop (map (\<lambda>(kind, val). group_element kind val) gs) =
     list_all (\<lambda>g. truthy (fst g) \<and> truthy (snd g)) gs"
proof (induction gs)
  case Nil
  show ?case by simp
next
  case (Cons g gs)
  obtain kind val where g: "g = (kind, val)" by (cases g)
  have "pe_kind (group_element kind val) = kind"
    by (cases val) (simp_all add: group_element_def)
  with Cons g truthy_group_element [of kind val] show ?case by auto
qed

lemma isKeyComplete_eq:
  "isKeyComplete key =
     (if \<not> is_string (first_element (key_path key)) then Inl KeyNeedsKind
      else if \<exists>g \<in> set (butlast (stride2 (key_path key))). \<not> truthy (snd g)
      then Inl AncestorNeedsId
      else Inr (list_all (\<lambda>g. truthy (fst g) \<and> truthy (snd g)) (stride2 (key_path key))))"
  by (simp add: isKeyComplete_def keyToKeyProto_eq isKeyComplete_loop_map)

section \<open>The Key constructor\<close>

text \<open>
  C3. The specification says that construction fails with \<^verbatim>\<open>MalformedKey\<close> when the
  element popped as the kind is absent or not a string. The constructor has no such test:
  it returns a Key for every options record, the kind being whatever was popped (the
  second element from the end of a path of even length, the last one of a path of odd
  length, \<^verbatim>\<open>undefined\<close> from an empty path), and the namespace that of the options.
  The kind is examined later, by \<^verbatim>\<open>keyToKeyProto\<close>, which reports a missing kind
  exactly when the first element of the path given to the constructor is not a string.
\<close>

theorem Key_never_validates_kind:
  "key_kind (Key opts) =
     (if path opts = [] then Undefined
      else if even (length (path opts)) then path opts ! (length (path opts) - 2)
      else last (path opts))
   \<and> key_namespace (Key opts) = namespace opts
   \<and> (keyToKeyProto (Key opts) = Inl KeyNeedsKind) = (\<not> is_string (first_element (path opts)))"
proof -
  obtain ns p where opts: "opts = \<lparr>namespace = ns, path = p\<rparr>"
    by (cases opts) simp
  have "(keyToKeyProto (Key opts) = Inl KeyNeedsKind) = (\<not> is_string (first_element (path opts)))"
    unfolding opts by (simp add: keyToKeyProto_eq first_element_key_path_Key)
  then show ?thesis
    using key_kind_Key [of ns p] key_namespace_Key [of opts] by (simp add: opts)
qed

theorem Key_never_validates_kind_witness:
  "key_kind (Key \<lparr>namespace = None, path = [Num (Fin 7), Num (Fin 1)]\<rparr>) = Num (Fin 7)
   \<and> keyToKeyProto (Key \<lparr>namespace = None, path = [Num (Fin 7), Num (Fin 1)]\<rparr>)
       = Inl KeyNeedsKind"
  using Key_never_validates_kind [of "\<lparr>namespace = None, path = [Num (Fin 7), Num (Fin 1)]\<rparr>"]
  by (simp add: first_element_def)

text \<open>The constructor builds a Key from an empty path; its kind is \<^verbatim>\<open>undefined\<close>.\<close>

theorem Key_missing_kind_counterexample:
  "Key \<lparr>namespace = None, path = []\<rparr> = KeyObj None Undefined None None None
   \<and> \<not> is_string (key_kind (Key \<lparr>namespace = None, path = []\<rparr>))"
  by (simp add: Key_Nil)

section \<open>Completeness of a key\<close>

text \<open>
  C2. The specification says that \<^verbatim>\<open>isKeyComplete\<close> never raises an error and answers
  false when the conversion to protocol form fails. The function calls
  \<^verbatim>\<open>keyToKeyProto\<close> unguarded: it raises exactly the errors of that conversion (the
  first path element is not a string, or a group before the last has a falsy identifier),
  and otherwise answers whether every group has a truthy kind and a truthy identifier.
\<close>

theorem isKeyComplete_propagates_errors:
  "isKeyComplete key =
     (if \<not> is_string (first_element (key_path key)) then Inl KeyNeedsKind
      else if \<exists>g \<in> set (butlast (stride2 (key_path key))). \<not> truthy (snd g)
      then Inl AncestorNeedsId
      else Inr (list_all (\<lambda>g. truthy (fst g) \<and> truthy (snd g)) (stride2 (key_path key))))
   \<and> (\<forall>e. (isKeyComplete key = Inl e) = (keyToKeyProto key = Inl e))"
proof -
  have "(isKeyComplete key = Inl e) = (keyToKeyProto key = Inl e)" for e
    by (cases "keyToKeyProto key") (simp_all add: isKeyComplete_def)
  then show ?thesis
    using isKeyComplete_eq [of key] by simp
qed

theorem isKeyComplete_propagates_errors_witness:
  "isKeyComplete (KeyObj None (Str ''Branch'') None None
                    (Some (KeyObj None (Str ''Company'') None None None)))
     = Inl AncestorNeedsId
   \<and> isKeyComplete (KeyObj None (Str ''Company'') None (Some ''Google'') None) = Inr True
   \<and> isKeyComplete (KeyObj None (Str ''Company'') None None None) = Inr False"
  using isKeyComplete_propagates_errors
          [of "KeyObj None (Str ''Branch'') None None
                 (Some (KeyObj None (Str ''Company'') None None None))"]
        isKeyComplete_propagates_errors [of "KeyObj None (Str ''Company'') None (Some ''Google'') None"]
        isKeyComplete_propagates_errors [of "KeyObj None (Str ''Company'') None None None"]
  by (simp add: first_element_def name_or_id_def js_or_def)

text \<open>A key whose first path element is a number: \<^verbatim>\<open>isKeyComplete\<close> raises.\<close>

theorem isKeyComplete_raises_counterexample:
  "isKeyComplete (Key \<lparr>namespace = None, path = [Num (Fin 7), Num (Fin 1)]\<rparr>) = Inl KeyNeedsKind"
  by code_simp

section \<open>Conversion of a key to protocol form\<close>

text \<open>What \<^verbatim>\<open>keyToKeyProto\<close> builds for one group of the path.\<close>

theorem group_element_kind_id_name:
  "pe_kind (group_element kind val) = kind
   \<and> (pe_id (group_element kind val) = (case val of Num n \<Rightarrow> if truthy val then IdNumber n else IdUndefined | _ \<Rightarrow> IdUndefined))
   \<and> (pe_name (group_element kind val) = (if truthy val \<and> \<not> is_number val then val else Undefined))"
  by (cases val) (simp_all add: group_element_def)



section \<open>The derived path\<close>

text \<open>
  C9. The path of a key is the path of its parent (empty without a parent) followed by
  the kind and \<^verbatim>\<open>name || id\<close>. The getter always appends both, so the path of every
  key has even length, twice the number of segments; the path of a key without id and
  name ends with its kind followed by \<^verbatim>\<open>undefined\<close>, not with the bare kind. For a
  key built by the constructor from a non-empty path, the path is the given one with
  every identifier that is neither a number nor a non-empty string replaced by
  \<^verbatim>\<open>undefined\<close>, and with \<^verbatim>\<open>undefined\<close> appended when its length is odd. The two
  examples of the specification hold.
\<close>

theorem key_path_derivation:
  "key_path key = (case key_parent key of None \<Rightarrow> [] | Some p \<Rightarrow> key_path p)
                  @ [key_kind key, name_or_id (key_name key) (key_id key)]
   \<and> length (key_path key) = 2 * length (key_chain key)
   \<and> even (length (key_path key))
   \<and> (key_id key = None \<and> key_name key = None \<longrightarrow>
        key_path key = (case key_parent key of None \<Rightarrow> [] | Some p \<Rightarrow> key_path p)
                       @ [key_kind key, Undefined])
   \<and> key_path (Key opts) =
        (if path opts = [] then [Undefined, Undefined] else derived_path (path opts))
   \<and> key_path (Key \<lparr>namespace = ns, path = [Str ''Company'', Num (Fin 123)]\<rparr>)
        = [Str ''Company'', Num (Fin 123)]
   \<and> key_path (Key \<lparr>namespace = ns,
                     path = [Str ''Company'', Str ''Google'', Str ''Branch'', Num (Fin 1)]\<rparr>)
        = [Str ''Company'', Str ''Google'', Str ''Branch'', Num (Fin 1)]
   \<and> map_option key_path
        (key_parent (Key \<lparr>namespace = ns,
                          path = [Str ''Company'', Str ''Google'', Str ''Branch'', Num (Fin 1)]\<rparr>))
        = Some [Str ''Company'', Str ''Google'']"
proof -
  obtain ns' p where opts: "opts = \<lparr>namespace = ns', path = p\<rparr>"
    by (cases opts) simp
  have built: "key_path (Key opts) =
        (if path opts = [] then [Undefined, Undefined] else derived_path (path opts))"
    unfolding opts by (simp add: key_path_Key Key_Nil name_or_id_def js_or_def)
  have incomplete: "key_id key = None \<and> key_name key = None \<longrightarrow>
        key_path key = (case key_parent key of None \<Rightarrow> [] | Some p \<Rightarrow> key_path p)
                       @ [key_kind key, Undefined]"
    using key_path_parent [of key] by (auto simp: name_or_id_def js_or_def)
  have ex1: "key_path (Key \<lparr>namespace = ns, path = [Str ''Company'', Num (Fin 123)]\<rparr>)
        = [Str ''Company'', Num (Fin 123)]"
    by (simp add: key_path_Key slot_def)
  have ex2: "key_path (Key \<lparr>namespace = ns,
                     path = [Str ''Company'', Str ''Google'', Str ''Branch'', Num (Fin 1)]\<rparr>)
        = [Str ''Company'', Str ''Google'', Str ''Branch'', Num (Fin 1)]"
    by (simp add: key_path_Key slot_def)
  have ex3: "map_option key_path
        (key_parent (Key \<lparr>namespace = ns,
                          path = [Str ''Company'', Str ''Google'', Str ''Branch'', Num (Fin 1)]\<rparr>))
        = Some [Str ''Company'', Str ''Google'']"
    using Key_snoc_pair [of "[Str ''Company'', Str ''Google'']" ns "Str ''Branch''" "Num (Fin 1)"]
    by (simp add: key_path_Key slot_def)
  show ?thesis
    using key_path_parent [of key] length_key_path [of key] incomplete built ex1 ex2 ex3
    by simp
qed

theorem key_path_derivation_witness:
  "key_id (KeyObj None (Str ''Company'') None None None) = None
   \<and> key_name (KeyObj None (Str ''Company'') None None None) = None
   \<and> key_path (KeyObj None (Str ''Company'') None None None) = [Str ''Company'', Undefined]"
  using key_path_derivation [of "KeyObj None (Str ''Company'') None None None"]
  by simp

text \<open>
  The path of the incomplete key built from \<^verbatim>\<open>['Company']\<close> has two elements and
  does not end with the kind.
\<close>

theorem incomplete_key_path_counterexample:
  "key_path (Key \<lparr>namespace = None, path = [Str ''Company'']\<rparr>) = [Str ''Company'', Undefined]
   \<and> key_id (Key \<lparr>namespace = None, path = [Str ''Company'']\<rparr>) = None
   \<and> key_name (Key \<lparr>namespace = None, path = [Str ''Company'']\<rparr>) = None
   \<and> last (key_path (Key \<lparr>namespace = None, path = [Str ''Company'']\<rparr>))
       \<noteq> key_kind (Key \<lparr>namespace = None, path = [Str ''Company'']\<rparr>)
   \<and> even (length (key_path (Key \<lparr>namespace = None, path = [Str ''Company'']\<rparr>)))"
  by code_simp

section \<open>Identifiers are tested by truthiness\<close>

lemma zero_id_or_empty_name_falsy:
  "zero_id_or_empty_name a \<Longrightarrow> \<not> truthy (snd (segment a))"
  by (auto simp: zero_id_or_empty_name_def segment_def name_or_id_def js_or_def)

lemma group_element_falsy:
  "\<not> truthy val \<Longrightarrow>
     group_element kind val = \<lparr>pe_kind = kind, pe_id = IdUndefined, pe_name = Undefined\<rparr>"
  by (simp add: group_element_def)

text \<open>
  C10. A segment whose id is 0 or whose name is the empty string is treated as a segment
  without identifier: the element that \<^verbatim>\<open>keyToKeyProto\<close> builds for it has neither
  id nor name; when the segment is an ancestor, \<^verbatim>\<open>keyToKeyProto\<close> (and with it
  \<^verbatim>\<open>isKeyComplete\<close>) raises the ancestor error; when it is the last segment and the
  conversion succeeds, \<^verbatim>\<open>isKeyComplete\<close> answers false. In the other direction,
  \<^verbatim>\<open>keyFromKeyProto\<close> takes the name of an element whose id is the text \<^verbatim>\<open>0\<close>.
\<close>

theorem identifiers_tested_by_truthiness:
  "(zero_id_or_empty_name a \<longrightarrow>
      group_element (fst (segment a)) (snd (segment a))
        = \<lparr>pe_kind = key_kind a, pe_id = IdUndefined, pe_name = Undefined\<rparr>)
   \<and> (is_string (first_element (key_path key))
        \<and> (\<exists>a \<in> set (butlast (key_chain key)). zero_id_or_empty_name a) \<longrightarrow>
        keyToKeyProto key = Inl AncestorNeedsId \<and> isKeyComplete key = Inl AncestorNeedsId)
   \<and> (zero_id_or_empty_name key \<longrightarrow>
        (\<forall>proto. keyToKeyProto key = Inr proto \<longrightarrow>
           last (path_element proto)
             = \<lparr>pe_kind = key_kind key, pe_id = IdUndefined, pe_name = Undefined\<rparr>
           \<and> isKeyComplete key = Inr False))
   \<and> element_identifier \<lparr>pe_kind = kind, pe_id = IdDecimal 0, pe_name = nm\<rparr> = nm
   \<and> keyFromKeyProto
        \<lparr>partition_id = None,
         path_element = [\<lparr>pe_kind = kind, pe_id = IdDecimal 0, pe_name = Str s\<rparr>]\<rparr>
       = Inr (KeyObj None kind None (if s = [] then None else Some s) None)"
proof -
  have omit: "zero_id_or_empty_name a \<longrightarrow>
      group_element (fst (segment a)) (snd (segment a))
        = \<lparr>pe_kind = key_kind a, pe_id = IdUndefined, pe_name = Undefined\<rparr>"
    using zero_id_or_empty_name_falsy [of a]
    by (auto simp: group_element_falsy) (simp add: segment_def)
  have anc: "keyToKeyProto key = Inl AncestorNeedsId \<and> isKeyComplete key = Inl AncestorNeedsId"
    if str: "is_string (first_element (key_path key))"
      and ex: "\<exists>a \<in> set (butlast (key_chain key)). zero_id_or_empty_name a"
  proof -
    from ex obtain a where a: "a \<in> set (butlast (key_chain key))" "zero_id_or_empty_name a"
      by blast
    then have "segment a \<in> set (butlast (stride2 (key_path key)))"
      by (simp add: stride2_key_path map_butlast [symmetric])
    with a(2) have "\<exists>g \<in> set (butlast (stride2 (key_path key))). \<not> truthy (snd g)"
      using zero_id_or_empty_name_falsy by blast
    with str show ?thesis
      by (simp add: keyToKeyProto_eq isKeyComplete_eq)
  qed
  have terminal: "last (path_element proto)
             = \<lparr>pe_kind = key_kind key, pe_id = IdUndefined, pe_name = Undefined\<rparr>
           \<and> isKeyComplete key = Inr False"
    if z: "zero_id_or_empty_name key" and ok: "keyToKeyProto key = Inr proto" for proto
  proof -
    have falsy: "\<not> truthy (snd (segment key))"
      using z by (rule zero_id_or_empty_name_falsy)
    have chain: "stride2 (key_path key) = map segment (butlast (key_chain key)) @ [segment key]"
      using key_chain_not_Nil [of key] last_key_chain [of key]
      by (metis append_butlast_last_id list.simps(8,9) map_append stride2_key_path)
    from ok have pe: "path_element proto =
        map (\<lambda>(kind, val). group_element kind val) (stride2 (key_path key))"
      by (auto simp: keyToKeyProto_eq split: if_splits)
    have "last (path_element proto) = group_element (fst (segment key)) (snd (segment key))"
      unfolding pe chain by (simp add: case_prod_unfold)
    with falsy have l: "last (path_element proto)
             = \<lparr>pe_kind = key_kind key, pe_id = IdUndefined, pe_name = Undefined\<rparr>"
      by (simp add: group_element_falsy segment_def)
    from ok have "isKeyComplete key =
        Inr (list_all (\<lambda>g. truthy (fst g) \<and> truthy (snd g)) (stride2 (key_path key)))"
      by (auto simp: isKeyComplete_eq keyToKeyProto_eq split: if_splits)
    with falsy have "isKeyComplete key = Inr False"
      unfolding chain by simp
    with l show ?thesis by simp
  qed
  have el: "element_identifier \<lparr>pe_kind = kind, pe_id = IdDecimal 0, pe_name = nm\<rparr> = nm"
    by (simp add: element_identifier_def js_or_def)
  have from_proto: "keyFromKeyProto
        \<lparr>partition_id = None,
         path_element = [\<lparr>pe_kind = kind, pe_id = IdDecimal 0, pe_name = Str s\<rparr>]\<rparr>
       = Inr (KeyObj None kind None (if s = [] then None else Some s) None)"
    using Key_snoc_pair [of "[]" None kind "Str s"] Key_snoc_single [of "[]" None kind]
    by (simp add: keyFromKeyProto_def element_identifier_def js_or_def proto_namespace_def)
  from omit anc terminal el from_proto show ?thesis
    by blast
qed

theorem identifiers_tested_by_truthiness_witness:
  "zero_id_or_empty_name (KeyObj None (Str ''Company'') (Some (Fin 0)) None None)
   \<and> keyToKeyProto (KeyObj None (Str ''Branch'') (Some (Fin 1)) None
                      (Some (KeyObj None (Str ''Company'') (Some (Fin 0)) None None)))
       = Inl AncestorNeedsId
   \<and> keyToKeyProto (KeyObj None (Str ''Company'') (Some (Fin 0)) None None)
       = Inr \<lparr>partition_id = None,
              path_element =
                [\<lparr>pe_kind = Str ''Company'', pe_id = IdUndefined, pe_name = Undefined\<rparr>]\<rparr>
   \<and> isKeyComplete (KeyObj None (Str ''Company'') (Some (Fin 0)) None None) = Inr False"
proof -
  let ?a = "KeyObj None (Str ''Company'') (Some (Fin 0)) None None"
  let ?k = "KeyObj None (Str ''Branch'') (Some (Fin 1)) None (Some ?a)"
  have z: "zero_id_or_empty_name ?a"
    by (simp add: zero_id_or_empty_name_def)
  have s: "is_string (first_element (key_path ?k))"
    by (simp add: first_element_def)
  have m: "\<exists>a \<in> set (butlast (key_chain ?k)). zero_id_or_empty_name a"
    using z by simp
  have ok: "keyToKeyProto ?a
       = Inr \<lparr>partition_id = None,
              path_element =
                [\<lparr>pe_kind = Str ''Company'', pe_id = IdUndefined, pe_name = Undefined\<rparr>]\<rparr>"
    by code_simp
  from identifiers_tested_by_truthiness [where key = ?k] s m
  have "keyToKeyProto ?k = Inl AncestorNeedsId"
    by blast
  moreover from identifiers_tested_by_truthiness [where key = ?a] z ok
  have "isKeyComplete ?a = Inr False"
    by blast
  ultimately show ?thesis
    using z ok by simp
qed

section \<open>Decoding a property\<close>

lemma map_sum_case: "map_sum id f x = (case x of Inl e \<Rightarrow> Inl e | Inr v \<Rightarrow> Inr (f v))"
  by (cases x) simp_all

text \<open>
  C6. \<^verbatim>\<open>propertyToValue\<close> converts the first field, in the order integer, double,
  string, blob, timestamp, key, entity, boolean, list, that is neither \<^verbatim>\<open>null\<close> nor
  \<^verbatim>\<open>undefined\<close>, whatever the later fields hold; when none of the nine is present it
  returns \<^verbatim>\<open>undefined\<close> and raises nothing.
\<close>

theorem propertyToValue_first_present_field:
  "propertyToValue p =
     (case find (present p) precedence of
        None \<Rightarrow> Inr VUndefined
      | Some f \<Rightarrow> convert p f)
   \<and> ((\<forall>f \<in> set precedence. \<not> present p f) \<longrightarrow> propertyToValue p = Inr VUndefined)"
  by (simp add: propertyToValue_unfold precedence_def map_sum_case entityFromEntityProto_def)

theorem propertyToValue_first_present_field_witness:
  "find (present empty_property) precedence = None
   \<and> propertyToValue empty_property = Inr VUndefined
   \<and> propertyToValue (Property FNull (FVal (Fin 3)) FUndefined FUndefined FUndefined
                         FUndefined FUndefined (FVal True) FUndefined FUndefined)
       = Inr (VNumber (Fin 3))"
  using propertyToValue_first_present_field [of empty_property]
        propertyToValue_first_present_field
          [of "Property FNull (FVal (Fin 3)) FUndefined FUndefined FUndefined
                         FUndefined FUndefined (FVal True) FUndefined FUndefined"]
  by (simp add: precedence_def empty_property_def exists_def)

section \<open>Encoding numbers\<close>

lemma trunc_eq_iff: "(q = of_int (trunc q)) = (q \<in> \<int>)"
proof
  assume "q = of_int (trunc q)"
  then show "q \<in> \<int>" by (metis Ints_of_int)
next
  assume "q \<in> \<int>"
  then show "q = of_int (trunc q)" by (auto simp: trunc_def elim: Ints_cases)
qed

lemma mod1_zero_fraction: "(mod1 n = Fin 0) = zero_fraction n"
  by (cases n) (simp_all add: zero_fraction_def trunc_eq_iff)

text \<open>
  C7. \<^verbatim>\<open>valueToProperty\<close> stores the payload of an \<^verbatim>\<open>Int\<close> in \<^verbatim>\<open>integer_value\<close>
  and the payload of a \<^verbatim>\<open>Double\<close> in \<^verbatim>\<open>double_value\<close>, whatever the payload (a
  \<^verbatim>\<open>Double\<close> holding 7 gives \<^verbatim>\<open>double_value\<close>); a plain number goes to
  \<^verbatim>\<open>integer_value\<close> when its fractional part is zero (7) and to \<^verbatim>\<open>double_value\<close>
  otherwise (7.5).
\<close>

theorem valueToProperty_numbers:
  "valueToProperty (VInt n) = Inr (set_integer_value n)
   \<and> valueToProperty (VDouble n) = Inr (set_double_value n)
   \<and> valueToProperty (VNumber n)
       = Inr (if zero_fraction n then set_integer_value n else set_double_value n)
   \<and> valueToProperty (VDouble (Fin 7)) = Inr (set_double_value (Fin 7))
   \<and> valueToProperty (VNumber (Fin 7)) = Inr (set_integer_value (Fin 7))
   \<and> valueToProperty (VNumber (Fin (15 / 2))) = Inr (set_double_value (Fin (15 / 2)))
   \<and> integer_value (set_integer_value n) = FVal n
   \<and> double_value (set_integer_value n) = FUndefined
   \<and> double_value (set_double_value n) = FVal n
   \<and> integer_value (set_double_value n) = FUndefined"
proof -
  have "zero_fraction (Fin 7)" by (simp add: zero_fraction_def)
  moreover have "\<not> zero_fraction (Fin (15 / 2))"
    unfolding zero_fraction_def by code_simp
  ultimately show ?thesis
    by (simp add: mod1_zero_fraction set_integer_value_def set_double_value_def del: mod1.simps)
qed

theorem valueToProperty_numbers_witness:
  "zero_fraction (Fin 3) \<and> \<not> zero_fraction (Fin (1 / 4)) \<and> \<not> zero_fraction NaN
   \<and> valueToProperty (VNumber (Fin 3)) = Inr (set_integer_value (Fin 3))
   \<and> valueToProperty (VNumber (Fin (1 / 4))) = Inr (set_double_value (Fin (1 / 4)))
   \<and> valueToProperty (VNumber NaN) = Inr (set_double_value NaN)"
proof -
  have a: "zero_fraction (Fin 3)" by (simp add: zero_fraction_def)
  have b: "\<not> zero_fraction (Fin (1 / 4))" unfolding zero_fraction_def by code_simp
  have c: "\<not> zero_fraction NaN" by (simp add: zero_fraction_def)
  from a b c valueToProperty_numbers [of "Fin 3"] valueToProperty_numbers [of "Fin (1 / 4)"]
    valueToProperty_numbers [of NaN]
  show ?thesis by (simp del: valueToProperty.simps)
qed

section \<open>Compiling a query\<close>

lemma filters_map_Inl:
  "filters_map fs = Inl e \<Longrightarrow> \<exists>f \<in> set fs. filter_value f = Inl e"
  by (induction fs) (auto split: sum.splits)

lemma filters_map_Inr:
  "\<forall>f \<in> set fs. \<exists>v. filter_value f = Inr v \<Longrightarrow>
     \<exists>pfs. filters_map fs = Inr pfs
       \<and> map pf_operator pfs = map (\<lambda>f. table_lookup OP_TO_OPERATOR (filter_op f)) fs
       \<and> map pf_property pfs = map filter_name fs"
  by (induction fs) auto

lemma lookup_unknown_op:
  "op \<notin> set known_ops \<Longrightarrow>
     table_lookup OP_TO_OPERATOR op
       = (if op \<in> set object_prototype_names then Inherited op else NotFound)"
  by (simp add: table_lookup_def OP_TO_OPERATOR_def known_ops_def)

text \<open>
  C4. The specification says that a filter with an unknown operator makes
  \<^verbatim>\<open>queryToQueryProto\<close> fail with \<^verbatim>\<open>UnsupportedOperator\<close>. The function looks the
  operator up in \<^verbatim>\<open>OP_TO_OPERATOR\<close> and stores what it finds: it raises only the errors
  of the conversion of a filter value, and whenever every filter value converts it
  returns a query whose filters carry the results of the lookups. For an operator outside
  the table the lookup gives \<^verbatim>\<open>undefined\<close> (or the member of \<^verbatim>\<open>Object.prototype\<close> of
  that name).
\<close>

theorem queryToQueryProto_unknown_operator:
  "(\<forall>e. queryToQueryProto q = Inl e \<longrightarrow> (\<exists>f \<in> set (filters q). filter_value f = Inl e))
   \<and> ((\<forall>f \<in> set (filters q). \<exists>v. filter_value f = Inr v) \<longrightarrow>
        (\<exists>r. queryToQueryProto q = Inr r
           \<and> (case qp_filter r of
                 None \<Rightarrow> filters q = []
               | Some cf \<Rightarrow>
                   map pf_operator (cf_filter cf)
                     = map (\<lambda>f. table_lookup OP_TO_OPERATOR (filter_op f)) (filters q))))
   \<and> (op \<notin> set known_ops \<longrightarrow>
        table_lookup OP_TO_OPERATOR op
          = (if op \<in> set object_prototype_names then Inherited op else NotFound))"
proof -
  have err: "\<exists>f \<in> set (filters q). filter_value f = Inl e" if "queryToQueryProto q = Inl e" for e
    using that filters_map_Inl [of "filters q" e]
    by (auto simp: queryToQueryProto_def split: if_splits sum.splits)
  have ok: "\<exists>r. queryToQueryProto q = Inr r
           \<and> (case qp_filter r of
                 None \<Rightarrow> filters q = []
               | Some cf \<Rightarrow>
                   map pf_operator (cf_filter cf)
                     = map (\<lambda>f. table_lookup OP_TO_OPERATOR (filter_op f)) (filters q))"
    if "\<forall>f \<in> set (filters q). \<exists>v. filter_value f = Inr v"
    using filters_map_Inr [OF that] by (auto simp: queryToQueryProto_def)
  from err ok lookup_unknown_op [of op] show ?thesis
    by blast
qed

theorem queryToQueryProto_unknown_operator_witness:
  "''!='' \<notin> set known_ops
   \<and> table_lookup OP_TO_OPERATOR ''!='' = NotFound
   \<and> queryToQueryProto
        \<lparr>kinds = [''Kind''],
         filters = [\<lparr>filter_name = ''age'', filter_op = ''='', filter_val = VNull\<rparr>],
         orders = [], groupByVal = [], selectVal = [], startVal = None, endVal = None,
         limitVal = Fin (- 1), offsetVal = Fin (- 1)\<rparr> = Inl UnsupportedValue
   \<and> filter_value \<lparr>filter_name = ''age'', filter_op = ''='', filter_val = VNull\<rparr>
       = Inl UnsupportedValue
   \<and> (\<exists>r. queryToQueryProto
             \<lparr>kinds = [''Kind''],
              filters = [\<lparr>filter_name = ''age'', filter_op = ''<>'',
                          filter_val = VString ''x''\<rparr>],
              orders = [], groupByVal = [], selectVal = [], startVal = None, endVal = None,
              limitVal = Fin (- 1), offsetVal = Fin (- 1)\<rparr> = Inr r)"
proof -
  let ?bad = "\<lparr>kinds = [''Kind''],
         filters = [\<lparr>filter_name = ''age'', filter_op = ''='', filter_val = VNull\<rparr>],
         orders = [], groupByVal = [], selectVal = [], startVal = None, endVal = None,
         limitVal = Fin (- 1), offsetVal = Fin (- 1)\<rparr>"
  let ?good = "\<lparr>kinds = [''Kind''],
              filters = [\<lparr>filter_name = ''age'', filter_op = ''<>'',
                          filter_val = VString ''x''\<rparr>],
              orders = [], groupByVal = [], selectVal = [], startVal = None, endVal = None,
              limitVal = Fin (- 1), offsetVal = Fin (- 1)\<rparr>"
  have unknown: "''!='' \<notin> set known_ops"
    by (simp add: known_ops_def)
  have fails: "queryToQueryProto ?bad = Inl UnsupportedValue"
    by (simp add: queryToQueryProto_def filter_value_def)
  have converts: "\<forall>f \<in> set (filters ?good). \<exists>v. filter_value f = Inr v"
    by (simp add: filter_value_def)
  from queryToQueryProto_unknown_operator [of ?bad "''!=''"] unknown fails
  have "table_lookup OP_TO_OPERATOR ''!='' = NotFound"
    and "\<exists>f \<in> set (filters ?bad). filter_value f = Inl UnsupportedValue"
    by (simp_all add: object_prototype_names_def)
  moreover from queryToQueryProto_unknown_operator [of ?good "''!=''"] converts
  have "\<exists>r. queryToQueryProto ?good = Inr r"
    by blast
  ultimately show ?thesis
    using unknown fails by simp
qed

text \<open>A filter with the operator \<^verbatim>\<open>!=\<close> compiles; its operator is \<^verbatim>\<open>undefined\<close>.\<close>

theorem unknown_operator_counterexample:
  "queryToQueryProto
     \<lparr>kinds = [''Kind''],
      filters = [\<lparr>filter_name = ''age'', filter_op = ''!='', filter_val = VNumber (Fin 5)\<rparr>],
      orders = [], groupByVal = [], selectVal = [], startVal = None, endVal = None,
      limitVal = Fin (- 1), offsetVal = Fin (- 1)\<rparr>
   = Inr \<lparr>qp_projection = [], qp_kind = [''Kind''],
          qp_filter = Some \<lparr>cf_filter = [\<lparr>pf_property = ''age'', pf_operator = NotFound,
                                          pf_value = set_integer_value (Fin 5)\<rparr>],
                            cf_operator = ''AND''\<rparr>,
          qp_order = [], qp_group_by = [], qp_start_cursor = None, qp_end_cursor = None,
          qp_offset = None, qp_limit = None\<rparr>"
  by code_simp

text \<open>
  C5. The query of the example, for any key that converts to protocol form, any
  non-positive (or \<^verbatim>\<open>NaN\<close>) offset and any projection, grouping and cursors, compiles to
  the kind \<^verbatim>\<open>Kind\<close>, one composite AND filter with the single property filter
  \<^verbatim>\<open>__key__ HAS_ANCESTOR\<close> holding a \<^verbatim>\<open>key_value\<close>, the order \<^verbatim>\<open>created\<close>
  descending, the limit 10 and no offset. In general the offset and the limit are there
  exactly when they are greater than zero, and the filter exactly when there are filters.
\<close>

theorem queryToQueryProto_example:
  "(keyToKeyProto someKey = Inr kp \<and> \<not> greater_zero off \<longrightarrow>
      queryToQueryProto
        \<lparr>kinds = [''Kind''],
         filters = [\<lparr>filter_name = ''__key__'', filter_op = ''HAS_ANCESTOR'',
                     filter_val = VKey someKey\<rparr>],
         orders = [\<lparr>order_name = ''created'', order_sign = ''-''\<rparr>],
         groupByVal = gs, selectVal = sel, startVal = sv, endVal = ev,
         limitVal = Fin 10, offsetVal = off\<rparr>
      = Inr \<lparr>qp_projection = sel, qp_kind = [''Kind''],
             qp_filter = Some \<lparr>cf_filter = [\<lparr>pf_property = ''__key__'',
                                              pf_operator = Found ''HAS_ANCESTOR'',
                                              pf_value = set_key_value kp\<rparr>],
                               cf_operator = ''AND''\<rparr>,
             qp_order = [\<lparr>po_property = ''created'', po_direction = Found ''DESCENDING''\<rparr>],
             qp_group_by = gs,
             qp_start_cursor = (if truthy_string sv then Some (Base64 (the sv)) else None),
             qp_end_cursor = (if truthy_string ev then Some (Base64 (the ev)) else None),
             qp_offset = None, qp_limit = Some (Fin 10)\<rparr>)
   \<and> (\<forall>r. queryToQueryProto q = Inr r \<longrightarrow>
         qp_offset r = (if greater_zero (offsetVal q) then Some (offsetVal q) else None)
         \<and> qp_limit r = (if greater_zero (limitVal q) then Some (limitVal q) else None)
         \<and> (qp_filter r \<noteq> None) = (filters q \<noteq> []))
   \<and> key_value (set_key_value kp) = FVal kp"
proof -
  have example: "queryToQueryProto
        \<lparr>kinds = [''Kind''],
         filters = [\<lparr>filter_name = ''__key__'', filter_op = ''HAS_ANCESTOR'',
                     filter_val = VKey someKey\<rparr>],
         orders = [\<lparr>order_name = ''created'', order_sign = ''-''\<rparr>],
         groupByVal = gs, selectVal = sel, startVal = sv, endVal = ev,
         limitVal = Fin 10, offsetVal = off\<rparr>
      = Inr \<lparr>qp_projection = sel, qp_kind = [''Kind''],
             qp_filter = Some \<lparr>cf_filter = [\<lparr>pf_property = ''__key__'',
                                              pf_operator = Found ''HAS_ANCESTOR'',
                                              pf_value = set_key_value kp\<rparr>],
                               cf_operator = ''AND''\<rparr>,
             qp_order = [\<lparr>po_property = ''created'', po_direction = Found ''DESCENDING''\<rparr>],
             qp_group_by = gs,
             qp_start_cursor = (if truthy_string sv then Some (Base64 (the sv)) else None),
             qp_end_cursor = (if truthy_string ev then Some (Base64 (the ev)) else None),
             qp_offset = None, qp_limit = Some (Fin 10)\<rparr>"
    if "keyToKeyProto someKey = Inr kp" and "\<not> greater_zero off"
    using that
    by (simp add: queryToQueryProto_def filter_value_def table_lookup_def OP_TO_OPERATOR_def
        SIGN_TO_ORDER_def)
  have general: "qp_offset r = (if greater_zero (offsetVal q) then Some (offsetVal q) else None)
         \<and> qp_limit r = (if greater_zero (limitVal q) then Some (limitVal q) else None)
         \<and> (qp_filter r \<noteq> None) = (filters q \<noteq> [])"
    if "queryToQueryProto q = Inr r" for r
    using that by (auto simp: queryToQueryProto_def split: sum.splits if_splits)
  have "key_value (set_key_value kp) = FVal kp"
    by (simp add: set_key_value_def)
  with example general show ?thesis
    by blast
qed

theorem queryToQueryProto_example_witness:
  "keyToKeyProto (KeyObj None (Str ''Parent'') (Some (Fin 1)) None None)
     = Inr \<lparr>partition_id = None,
            path_element = [\<lparr>pe_kind = Str ''Parent'', pe_id = IdNumber (Fin 1),
                              pe_name = Undefined\<rparr>]\<rparr>
   \<and> \<not> greater_zero (Fin (- 1))
   \<and> queryToQueryProto
        \<lparr>kinds = [''Kind''],
         filters = [\<lparr>filter_name = ''__key__'', filter_op = ''HAS_ANCESTOR'',
                     filter_val = VKey (KeyObj None (Str ''Parent'') (Some (Fin 1)) None None)\<rparr>],
         orders = [\<lparr>order_name = ''created'', order_sign = ''-''\<rparr>],
         groupByVal = [], selectVal = [], startVal = None, endVal = None,
         limitVal = Fin 10, offsetVal = Fin (- 1)\<rparr>
      = Inr \<lparr>qp_projection = [], qp_kind = [''Kind''],
             qp_filter = Some \<lparr>cf_filter = [\<lparr>pf_property = ''__key__'',
                 pf_operator = Found ''HAS_ANCESTOR'',
                 pf_value = set_key_value
                   \<lparr>partition_id = None,
                    path_element = [\<lparr>pe_kind = Str ''Parent'', pe_id = IdNumber (Fin 1),
                                      pe_name = Undefined\<rparr>]\<rparr>\<rparr>],
                               cf_operator = ''AND''\<rparr>,
             qp_order = [\<lparr>po_property = ''created'', po_direction = Found ''DESCENDING''\<rparr>],
             qp_group_by = [], qp_start_cursor = None, qp_end_cursor = None,
             qp_offset = None, qp_limit = Some (Fin 10)\<rparr>"
proof -
  let ?key = "KeyObj None (Str ''Parent'') (Some (Fin 1)) None None"
  let ?kp = "\<lparr>partition_id = None,
            path_element = [\<lparr>pe_kind = Str ''Parent'', pe_id = IdNumber (Fin 1),
                              pe_name = Undefined\<rparr>]\<rparr>"
  have k: "keyToKeyProto ?key = Inr ?kp"
    by code_simp
  have off: "\<not> greater_zero (Fin (- 1))"
    by simp
  from queryToQueryProto_example
         [of ?key ?kp "Fin (- 1)" "[]" "[]" None None] k off
  show ?thesis
    by (simp add: truthy_string_def)
qed

section \<open>Encoding followed by decoding\<close>






























end
